theory Spec2Isabelle
  imports Main "HOL-Library.Word"
begin

unbundle bit_operations_syntax

section \<open>PoseBridge inference engine: the relay loop of scripts/engine.py\<close>

text \<open>
  The engine subscribes to camera frames, runs a pose estimator on each decoded frame and
  publishes a preview image and, when a pose was found, the flattened key points. OpenCV,
  MediaPipe and ZeroMQ are libraries outside the repository: their calls are parameters of
  the model (\<open>env\<close>, \<open>tick\<close>), each returning either a raised exception or a value. The loop
  itself, the framing of both outbound messages and the shutdown sequence are translated
  from \<open>main\<close>.
\<close>

subsection \<open>Data\<close>

type_synonym byte = "8 word"
type_synonym bytes = "byte list"

text \<open>A Python float, as its IEEE-754 binary64 bit pattern. No arithmetic is done on it.\<close>

type_synonym pyfloat = "64 word"

text \<open>
  What a call can raise. \<open>KeyboardInterrupt\<close> is not a subclass of \<open>Exception\<close>; every
  other error of the libraries and of the interpreter (\<open>IndexError\<close>, \<open>AttributeError\<close>,
  \<open>cv2.error\<close>, \<open>zmq.ZMQError\<close>) is, and carries the text \<open>str(e)\<close> that the handler prints.
\<close>

datatype exn = KeyboardInterrupt | Exception string

text \<open>
  The array returned by \<open>cv2.imdecode(_, cv2.IMREAD_COLOR)\<close>: shape (shape0, shape1, 3),
  8-bit samples, each pixel in the order blue, green, red.
\<close>

record frame =
  shape0 :: nat
  shape1 :: nat
  pix :: "(byte \<times> byte \<times> byte) list"

record landmark =
  lm_x :: pyfloat
  lm_y :: pyfloat
  lm_z :: pyfloat
  lm_visibility :: pyfloat

text \<open>
  The value of \<open>pose.process\<close>. Each attribute is \<open>None\<close> or a landmark list message, whose
  repeated field \<open>landmark\<close> is the list. A message object is truthy whatever it holds, so
  \<open>if results.pose_landmarks\<close> tests for \<open>None\<close>.
\<close>

record results =
  pose_landmarks :: "landmark list option"
  pose_world_landmarks :: "landmark list option"

datatype json = JInt int | JFloat pyfloat

datatype handle = Socket_sub | Socket_pub_img | Socket_pub_pose

text \<open>
  The calls the loop makes on the outside world, in the order it makes them. \<open>Recv\<close>,
  \<open>SendImg\<close> and \<open>SendPose\<close> are recorded when the call returns (the message was received, or
  handed to the transport); the other calls are recorded when they are made.
\<close>

datatype event =
    Poll nat
  | Recv "bytes list"
  | Imdecode bytes
  | Process frame
  | DrawLandmarks frame "landmark list"
  | Imencode string frame "int list"
  | SendImg "bytes list"
  | SendPose "bytes list"
  | Print string
  | Close handle
  | Term

text \<open>
  The libraries. \<open>process\<close> threads the estimator's tracking state \<open>'e\<close>
  (\<open>static_image_mode=False\<close>); \<open>draw_landmarks\<close> writes into the array it is given, so
  it returns the new samples and cannot change the shape; \<open>imencode\<close> returns the pair
  \<open>(retval, buf)\<close>; \<open>float_repr\<close> is
  \<open>float.__repr__\<close> as \<open>json.dumps\<close> uses it and \<open>float32\<close> the rounding of
  \<open>np.array(_, dtype=np.float32)\<close>, both left uninterpreted.
\<close>

record 'e env =
  imdecode :: "bytes \<Rightarrow> exn + frame option"
  process :: "'e \<Rightarrow> frame \<Rightarrow> exn + (results \<times> 'e)"
  draw_landmarks :: "frame \<Rightarrow> landmark list \<Rightarrow> exn + (byte \<times> byte \<times> byte) list"
  imencode :: "string \<Rightarrow> frame \<Rightarrow> int list \<Rightarrow> exn + (bool \<times> bytes)"
  float_repr :: "pyfloat \<Rightarrow> string"
  float32 :: "pyfloat \<Rightarrow> 32 word"

text \<open>
  What the world answers during one pass of the \<open>while\<close> body: the result of
  \<open>socket_sub.poll(10)\<close> and of \<open>socket_sub.recv_multipart()\<close>, the clock \<open>time.time()\<close>, and
  what each \<open>send_multipart\<close> raises, if anything.
\<close>

record tick =
  poll :: "exn + nat"
  recv_multipart :: "exn + bytes list"
  time :: pyfloat
  send_img :: "exn option"
  send_pose :: "exn option"

record 'e state =
  est :: 'e
  trace :: "event list"

definition emit :: "event \<Rightarrow> 'e state \<Rightarrow> 'e state" where
  "emit ev s = s\<lparr>trace := trace s @ [ev]\<rparr>"

subsection \<open>Library calls with a fixed meaning\<close>

text \<open>\<open>cv2.cvtColor(frame, cv2.COLOR_BGR2RGB)\<close>: a new array with channels 0 and 2 exchanged.\<close>

definition cvtColor_BGR2RGB :: "frame \<Rightarrow> frame" where
  "cvtColor_BGR2RGB f = f\<lparr>pix := map (\<lambda>(b, g, r). (r, g, b)) (pix f)\<rparr>"

text \<open>The value of \<open>cv2.IMWRITE_JPEG_QUALITY\<close> in OpenCV's \<open>ImwriteFlags\<close>.\<close>

definition IMWRITE_JPEG_QUALITY :: int where
  "IMWRITE_JPEG_QUALITY = 1"

fun str_nat :: "nat \<Rightarrow> string" where
  "str_nat n =
     (if n < 10 then [char_of (48 + n)] else str_nat (n div 10) @ [char_of (48 + n mod 10)])"

definition str_int :: "int \<Rightarrow> string" where
  "str_int i = (if i < 0 then CHR ''-'' # str_nat (nat (- i)) else str_nat (nat i))"

text \<open>
  \<open>json.dumps\<close> of a dict with string keys and int or float values, with the default
  separators: \<open>{"k": v, "k2": v2}\<close>, in insertion order.
\<close>

fun dumps_value :: "(pyfloat \<Rightarrow> string) \<Rightarrow> json \<Rightarrow> string" where
  "dumps_value fr (JInt i) = str_int i"
| "dumps_value fr (JFloat d) = fr d"

fun dumps_items :: "(pyfloat \<Rightarrow> string) \<Rightarrow> (string \<times> json) list \<Rightarrow> string" where
  "dumps_items fr [] = []"
| "dumps_items fr [(k, v)] = ''\"'' @ k @ ''\": '' @ dumps_value fr v"
| "dumps_items fr ((k, v) # kvs) = ''\"'' @ k @ ''\": '' @ dumps_value fr v @ '', '' @ dumps_items fr kvs"

definition json_dumps :: "(pyfloat \<Rightarrow> string) \<Rightarrow> (string \<times> json) list \<Rightarrow> string" where
  "json_dumps fr kvs = ''{'' @ dumps_items fr kvs @ ''}''"

text \<open>\<open>str.encode('utf-8')\<close> on the ASCII text \<open>json.dumps\<close> produces: one byte per character.\<close>

definition encode_utf8 :: "string \<Rightarrow> bytes" where
  "encode_utf8 s = map of_char s"

text \<open>
  \<open>np.array(kp_list, dtype=np.float32).tobytes()\<close>: each value rounded to binary32 and
  written in the host's byte order, least significant byte first on the little-endian
  hosts the engine runs on.
\<close>

definition le_bytes32 :: "32 word \<Rightarrow> bytes" where
  "le_bytes32 w = [ucast w, ucast (drop_bit 8 w), ucast (drop_bit 16 w), ucast (drop_bit 24 w)]"

definition tobytes_float32 :: "(pyfloat \<Rightarrow> 32 word) \<Rightarrow> pyfloat list \<Rightarrow> bytes" where
  "tobytes_float32 f32 kps = concat (map (\<lambda>v. le_bytes32 (f32 v)) kps)"

subsection \<open>The body of the loop\<close>

text \<open>
  The \<open>for lm in ...: kp_list.extend([lm.x, lm.y, lm.z, lm.visibility])\<close> of step 5.
\<close>

fun extract_keypoints :: "landmark list \<Rightarrow> pyfloat list" where
  "extract_keypoints [] = []"
| "extract_keypoints (lm # lms) =
     [lm_x lm, lm_y lm, lm_z lm, lm_visibility lm] @ extract_keypoints lms"

definition AttributeError_landmark :: exn where
  "AttributeError_landmark =
     Exception (CHR 0x27 # ''NoneType'' @ CHR 0x27 # '' object has no attribute '' @
                CHR 0x27 # ''landmark'' @ [CHR 0x27])"

definition IndexError_list :: exn where
  "IndexError_list = Exception ''list index out of range''"

text \<open>The two parts of the preview message and of the key point message (steps 6 and 7).\<close>

definition img_message :: "'e env \<Rightarrow> tick \<Rightarrow> frame \<Rightarrow> bytes \<Rightarrow> bytes list" where
  "img_message env w fr buffer =
     [encode_utf8 (json_dumps (float_repr env)
        [(''w'', JInt (int (shape1 fr))), (''h'', JInt (int (shape0 fr))), (''ts'', JFloat (time w))]),
      buffer]"

definition pose_message :: "'e env \<Rightarrow> landmark list \<Rightarrow> pyfloat list \<Rightarrow> bytes list" where
  "pose_message env world kp_list =
     [encode_utf8 (json_dumps (float_repr env) [(''count'', JInt (int (length world)))]),
      tobytes_float32 (float32 env) kp_list]"

text \<open>Step 7: \<open>if kp_list:\<close> and the send on \<open>socket_pub_pose\<close>.\<close>

definition send_keypoints ::
  "'e env \<Rightarrow> tick \<Rightarrow> results \<Rightarrow> pyfloat list \<Rightarrow> 'e state \<Rightarrow> exn option \<times> 'e state" where
  "send_keypoints env w res kp_list s =
     (if kp_list \<noteq> [] then
        (case pose_world_landmarks res of
           None \<Rightarrow> (Some AttributeError_landmark, s)
         | Some world \<Rightarrow>
             (case send_pose w of
                Some e \<Rightarrow> (Some e, s)
              | None \<Rightarrow> (None, emit (SendPose (pose_message env world kp_list)) s)))
      else (None, s))"

text \<open>Step 6: encode the frame at JPEG quality 70 and send it on \<open>socket_pub_img\<close>; then step 7.\<close>

definition send_preview ::
  "'e env \<Rightarrow> tick \<Rightarrow> frame \<Rightarrow> results \<Rightarrow> pyfloat list \<Rightarrow> 'e state \<Rightarrow> exn option \<times> 'e state" where
  "send_preview env w fr res kp_list s =
     (let s1 = emit (Imencode ''.jpg'' fr [IMWRITE_JPEG_QUALITY, 70]) s in
      case imencode env ''.jpg'' fr [IMWRITE_JPEG_QUALITY, 70] of
        Inl e \<Rightarrow> (Some e, s1)
      | Inr (_, buffer) \<Rightarrow>
          (case send_img w of
             Some e \<Rightarrow> (Some e, s1)
           | None \<Rightarrow> send_keypoints env w res kp_list (emit (SendImg (img_message env w fr buffer)) s1)))"

text \<open>
  Step 5: when \<open>results.pose_landmarks\<close> is there, draw the skeleton on the frame (in
  place) and flatten \<open>results.pose_world_landmarks.landmark\<close>.
\<close>

definition prepare_keypoints ::
  "'e env \<Rightarrow> tick \<Rightarrow> frame \<Rightarrow> results \<Rightarrow> 'e state \<Rightarrow> exn option \<times> 'e state" where
  "prepare_keypoints env w fr res s =
     (case pose_landmarks res of
        None \<Rightarrow> send_preview env w fr res [] s
      | Some lms \<Rightarrow>
          (let s1 = emit (DrawLandmarks fr lms) s in
           case draw_landmarks env fr lms of
             Inl e \<Rightarrow> (Some e, s1)
           | Inr px \<Rightarrow>
               (case pose_world_landmarks res of
                  None \<Rightarrow> (Some AttributeError_landmark, s1)
                | Some world \<Rightarrow>
                    send_preview env w (fr\<lparr>pix := px\<rparr>) res (extract_keypoints world) s1)))"

text \<open>Step 4: inference on the colour-converted copy.\<close>

definition inference :: "'e env \<Rightarrow> tick \<Rightarrow> frame \<Rightarrow> 'e state \<Rightarrow> exn option \<times> 'e state" where
  "inference env w fr s =
     (let s1 = emit (Process (cvtColor_BGR2RGB fr)) s in
      case process env (est s) (cvtColor_BGR2RGB fr) of
        Inl e \<Rightarrow> (Some e, s1)
      | Inr (res, est') \<Rightarrow> prepare_keypoints env w fr res (s1\<lparr>est := est'\<rparr>))"

text \<open>
  Step 3, after the receive: \<open>msg[1]\<close>, \<open>np.frombuffer\<close> (the same bytes) and \<open>cv2.imdecode\<close>;
  \<open>continue\<close> when the frame is \<open>None\<close>.
\<close>

definition decode :: "'e env \<Rightarrow> tick \<Rightarrow> bytes list \<Rightarrow> 'e state \<Rightarrow> exn option \<times> 'e state" where
  "decode env w msg s =
     (if length msg \<le> 1 then (Some IndexError_list, s)
      else
        (let s1 = emit (Imdecode (msg ! 1)) s in
         case imdecode env (msg ! 1) of
           Inl e \<Rightarrow> (Some e, s1)
         | Inr None \<Rightarrow> (None, s1)
         | Inr (Some fr) \<Rightarrow> inference env w fr s1))"

text \<open>
  The body of the \<open>try\<close>: the exception it raises, if any, and the state it leaves.
\<close>

definition body :: "'e env \<Rightarrow> tick \<Rightarrow> 'e state \<Rightarrow> exn option \<times> 'e state" where
  "body env w s =
     (let s1 = emit (Poll 10) s in
      case poll w of
        Inl e \<Rightarrow> (Some e, s1)
      | Inr n \<Rightarrow>
          (if n = 0 then (None, s1)
           else
             (case recv_multipart w of
                Inl e \<Rightarrow> (Some e, s1)
              | Inr msg \<Rightarrow> decode env w msg (emit (Recv msg) s1))))"

subsection \<open>The loop and the shutdown\<close>

text \<open>
  \<open>while True\<close> with its two handlers, over the ticks the world has supplied so far. Both
  handlers leave the loop; the second prints the error first. The result says whether the
  loop was left (\<open>True\<close>) or is still polling when the ticks end (\<open>False\<close>).
\<close>

fun loop :: "'e env \<Rightarrow> tick list \<Rightarrow> 'e state \<Rightarrow> bool \<times> 'e state" where
  "loop env [] s = (False, s)"
| "loop env (w # ws) s =
     (case body env w s of
        (None, s') \<Rightarrow> loop env ws s'
      | (Some KeyboardInterrupt, s') \<Rightarrow> (True, s')
      | (Some (Exception m), s') \<Rightarrow> (True, emit (Print (''[Py Error] '' @ m)) s'))"

definition shutdown_events :: "event list" where
  "shutdown_events =
     [Print ''[Py] Shutting down.'', Close Socket_sub, Close Socket_pub_img,
      Close Socket_pub_pose, Term]"

definition startup_events :: "event list" where
  "startup_events =
     [Print ''[Py] Starting Inference Engine...'', Print ''[Py] Ready and waiting for frames...'']"

text \<open>
  \<open>main\<close>, from the first \<open>print\<close> on: \<open>e0\<close> is the estimator as \<open>mp_pose.Pose(...)\<close> built it.
  The lines after the loop run once the loop has been left.
\<close>

definition main :: "'e env \<Rightarrow> 'e \<Rightarrow> tick list \<Rightarrow> bool \<times> 'e state" where
  "main env e0 ws =
     (case loop env ws \<lparr>est = e0, trace = startup_events\<rparr> of
        (True, s) \<Rightarrow> (True, s\<lparr>trace := trace s @ shutdown_events\<rparr>)
      | (False, s) \<Rightarrow> (False, s))"

subsection \<open>Reading a trace\<close>

text \<open>The events one pass of the body adds to the trace.\<close>

definition iter_events :: "'e env \<Rightarrow> tick \<Rightarrow> 'e state \<Rightarrow> event list" where
  "iter_events env w s = drop (length (trace s)) (trace (snd (body env w s)))"

text \<open>The messages published on each outbound socket, the lines printed, the handles closed.\<close>

fun sent_img :: "event list \<Rightarrow> bytes list list" where
  "sent_img [] = []"
| "sent_img (SendImg p # evs) = p # sent_img evs"
| "sent_img (_ # evs) = sent_img evs"

fun sent_pose :: "event list \<Rightarrow> bytes list list" where
  "sent_pose [] = []"
| "sent_pose (SendPose p # evs) = p # sent_pose evs"
| "sent_pose (_ # evs) = sent_pose evs"

fun printed :: "event list \<Rightarrow> string list" where
  "printed [] = []"
| "printed (Print l # evs) = l # printed evs"
| "printed (_ # evs) = printed evs"

fun closed :: "event list \<Rightarrow> handle list" where
  "closed [] = []"
| "closed (Close h # evs) = h # closed evs"
| "closed (_ # evs) = closed evs"

fun received :: "event list \<Rightarrow> bytes list list" where
  "received [] = []"
| "received (Recv m # evs) = m # received evs"
| "received (_ # evs) = received evs"

text \<open>The calls that are handed a pixel buffer.\<close>

fun pixel_calls :: "event list \<Rightarrow> event list" where
  "pixel_calls [] = []"
| "pixel_calls (Process f # evs) = Process f # pixel_calls evs"
| "pixel_calls (DrawLandmarks f lms # evs) = DrawLandmarks f lms # pixel_calls evs"
| "pixel_calls (Imencode ext f ps # evs) = Imencode ext f ps # pixel_calls evs"
| "pixel_calls (_ # evs) = pixel_calls evs"

fun encode_calls :: "event list \<Rightarrow> (string \<times> int list) list" where
  "encode_calls [] = []"
| "encode_calls (Imencode ext f ps # evs) = (ext, ps) # encode_calls evs"
| "encode_calls (_ # evs) = encode_calls evs"

text \<open>
  The order of receives and sends within a trace. A pass begins with its \<open>Poll\<close>; within a
  pass one message may be received, then one preview sent, then one key point message.
  \<open>order_step\<close> is \<open>None\<close> on an event out of that order.
\<close>

datatype phase = Idle | Polled | Received | PreviewSent | PoseSent

fun order_step :: "phase \<Rightarrow> event \<Rightarrow> phase option" where
  "order_step ph (Poll t) = Some Polled"
| "order_step ph (Recv m) = (if ph = Polled then Some Received else None)"
| "order_step ph (SendImg p) = (if ph = Received then Some PreviewSent else None)"
| "order_step ph (SendPose p) = (if ph = PreviewSent then Some PoseSent else None)"
| "order_step ph ev = Some ph"

fun in_order :: "phase \<Rightarrow> event list \<Rightarrow> phase option" where
  "in_order ph [] = Some ph"
| "in_order ph (ev # evs) =
     (case order_step ph ev of None \<Rightarrow> None | Some ph' \<Rightarrow> in_order ph' evs)"

text \<open>
  Two ticks that differ at most in part 0 of the message received: the same number of
  parts, the same parts from part 1 on, and everything else the same.
\<close>

definition same_but_metadata :: "tick \<Rightarrow> tick \<Rightarrow> bool" where
  "same_but_metadata w w' \<longleftrightarrow>
     poll w = poll w' \<and> time w = time w' \<and> send_img w = send_img w' \<and> send_pose w = send_pose w' \<and>
     (case (recv_multipart w, recv_multipart w') of
        (Inr m, Inr m') \<Rightarrow> length m = length m' \<and> tl m = tl m'
      | (Inl e, Inl e') \<Rightarrow> e = e'
      | _ \<Rightarrow> False)"

text \<open>What the engine does to the outside: every event but the receives themselves.\<close>

fun outputs :: "event list \<Rightarrow> event list" where
  "outputs [] = []"
| "outputs (Recv m # evs) = outputs evs"
| "outputs (ev # evs) = ev # outputs evs"

subsection \<open>A stub estimator and codec, and some ticks\<close>

text \<open>
  A deterministic stand-in for the libraries: a payload decodes to one row whose blue
  samples are its bytes, unless it is empty or begins with a zero byte, when it does not
  decode; a pose of one landmark is
  found when the frame has a sample of value 1; drawing sets every green sample to 255;
  encoding writes the samples out.
\<close>

definition stub_lm :: landmark where
  "stub_lm = \<lparr>lm_x = 1, lm_y = 2, lm_z = 3, lm_visibility = 4\<rparr>"

definition stub_env :: "nat env" where
  "stub_env =
     \<lparr>imdecode = (\<lambda>b. if b = [] \<or> hd b = 0 then Inr None
                      else Inr (Some \<lparr>shape0 = 1, shape1 = length b, pix = map (\<lambda>v. (v, 0, 0)) b\<rparr>)),
      process = (\<lambda>e f. Inr (if (0, 0, 1) \<in> set (pix f)
                             then \<lparr>pose_landmarks = Some [stub_lm], pose_world_landmarks = Some [stub_lm]\<rparr>
                             else \<lparr>pose_landmarks = None, pose_world_landmarks = None\<rparr>, Suc e)),
      draw_landmarks = (\<lambda>f lms. Inr (map (\<lambda>(b, g, r). (b, 255, r)) (pix f))),
      imencode = (\<lambda>ext f ps. Inr (True, concat (map (\<lambda>(b, g, r). [b, g, r]) (pix f)))),
      float_repr = (\<lambda>d. ''0.0''),
      float32 = ucast\<rparr>"

definition state0 :: "nat state" where
  "state0 = \<lparr>est = 0, trace = []\<rparr>"

text \<open>A frame with a pose, a frame without, a payload that does not decode.\<close>

definition tick_pose :: tick where
  "tick_pose =
     \<lparr>poll = Inr 1, recv_multipart = Inr [[], [1]], time = 0, send_img = None, send_pose = None\<rparr>"

definition tick_nopose :: tick where
  "tick_nopose =
     \<lparr>poll = Inr 1, recv_multipart = Inr [[], [2]], time = 0, send_img = None, send_pose = None\<rparr>"

definition tick_bad :: tick where
  "tick_bad =
     \<lparr>poll = Inr 1, recv_multipart = Inr [[], [0, 9]], time = 0, send_img = None, send_pose = None\<rparr>"

text \<open>The frame with a pose under other metadata; a message of one part; no message.\<close>

definition tick_pose_meta :: tick where
  "tick_pose_meta =
     \<lparr>poll = Inr 1, recv_multipart = Inr [[7, 7], [1]], time = 0, send_img = None, send_pose = None\<rparr>"

definition tick_short :: tick where
  "tick_short =
     \<lparr>poll = Inr 1, recv_multipart = Inr [[1]], time = 0, send_img = None, send_pose = None\<rparr>"

definition tick_idle :: tick where
  "tick_idle =
     \<lparr>poll = Inr 0, recv_multipart = Inr [], time = 0, send_img = None, send_pose = None\<rparr>"

text \<open>An interrupt during the poll; a transport failure on the preview socket.\<close>

definition tick_interrupt :: tick where
  "tick_interrupt =
     \<lparr>poll = Inl KeyboardInterrupt, recv_multipart = Inr [], time = 0, send_img = None,
      send_pose = None\<rparr>"

definition tick_sendfail :: tick where
  "tick_sendfail =
     \<lparr>poll = Inr 1, recv_multipart = Inr [[], [1]], time = 0,
      send_img = Some (Exception ''Socket operation on non-socket''), send_pose = None\<rparr>"

section \<open>Properties\<close>

subsection \<open>Auxiliary facts\<close>

lemmas body_defs = body_def decode_def inference_def prepare_keypoints_def send_preview_def
  send_keypoints_def emit_def Let_def

lemmas stub_defs = stub_env_def stub_lm_def state0_def cvtColor_BGR2RGB_def

lemma body_extends: "\<exists>evs. trace (snd (body env w s)) = trace s @ evs"
  by (auto simp: body_defs split: sum.splits option.splits prod.splits)

lemma body_trace: "trace (snd (body env w s)) = trace s @ iter_events env w s"
  using body_extends [of env w s] by (auto simp: iter_events_def)

text \<open>The body reads the estimator state only: the trace it is given is carried along.\<close>

lemma body_retrace:
  "body env w (s\<lparr>trace := t\<rparr>) =
     (fst (body env w s), \<lparr>est = est (snd (body env w s)), trace = t @ iter_events env w s\<rparr>)"
  by (auto simp: body_defs iter_events_def split: sum.splits option.splits prod.splits)

lemma extract_keypoints_Nil: "extract_keypoints world = [] \<longleftrightarrow> world = []"
  by (cases world) auto

lemma length_extract_keypoints: "length (extract_keypoints world) = 4 * length world"
  by (induction world) auto

lemma tobytes_landmarks:
  "tobytes_float32 f (extract_keypoints world) =
     concat (map (\<lambda>lm. le_bytes32 (f (lm_x lm)) @ le_bytes32 (f (lm_y lm)) @
                        le_bytes32 (f (lm_z lm)) @ le_bytes32 (f (lm_visibility lm))) world)"
  by (induction world) (auto simp: tobytes_float32_def)

lemma length_tobytes_float32: "length (tobytes_float32 f kps) = 4 * length kps"
  by (induction kps) (auto simp: tobytes_float32_def le_bytes32_def)

lemma loop_append:
  "loop env (xs @ ys) s =
     (case loop env xs s of (True, s') \<Rightarrow> (True, s') | (False, s') \<Rightarrow> loop env ys s')"
  by (induction xs arbitrary: s) (auto split: prod.splits option.splits exn.splits)

lemma str_int_1: "str_int 1 = ''1''"
  by code_simp

lemma loop_invariant:
  assumes "P (trace s)"
    and "\<And>t w s'. P t \<Longrightarrow> P (t @ iter_events env w s')"
    and "\<And>t m. P t \<Longrightarrow> P (t @ [Print m])"
  shows "P (trace (snd (loop env ws s)))"
  using assms(1)
proof (induction ws arbitrary: s)
  case Nil
  then show ?case by simp
next
  case (Cons w ws)
  have step: "P (trace (snd (body env w s)))"
    using assms(2) [OF Cons.prems, of w s] by (simp add: body_trace)
  show ?case
  proof (cases "fst (body env w s)")
    case None
    then show ?thesis
      using Cons.IH [OF step] by (simp add: split_beta)
  next
    case (Some e)
    then show ?thesis
      using step assms(3) [OF step] by (cases e) (simp_all add: split_beta emit_def)
  qed
qed

lemma main_trace:
  "trace (snd (main env e0 ws)) =
     trace (snd (loop env ws \<lparr>est = e0, trace = startup_events\<rparr>)) @
     (if fst (main env e0 ws) then shutdown_events else [])"
  by (simp add: main_def split: prod.splits bool.splits)

lemma main_exit: "fst (main env e0 ws) = fst (loop env ws \<lparr>est = e0, trace = startup_events\<rparr>)"
  by (simp add: main_def split: prod.splits bool.splits)

lemma encode_calls_append: "encode_calls (a @ b) = encode_calls a @ encode_calls b"
  by (induction a rule: encode_calls.induct) auto

lemma sent_img_append: "sent_img (a @ b) = sent_img a @ sent_img b"
  by (induction a rule: sent_img.induct) auto

lemma sent_pose_append: "sent_pose (a @ b) = sent_pose a @ sent_pose b"
  by (induction a rule: sent_pose.induct) auto

lemma closed_append: "closed (a @ b) = closed a @ closed b"
  by (induction a rule: closed.induct) auto

lemma printed_append: "printed (a @ b) = printed a @ printed b"
  by (induction a rule: printed.induct) auto

lemma received_append: "received (a @ b) = received a @ received b"
  by (induction a rule: received.induct) auto

lemma outputs_append: "outputs (a @ b) = outputs a @ outputs b"
  by (induction a rule: outputs.induct) auto

lemma in_order_append:
  "in_order ph (a @ b) = (case in_order ph a of None \<Rightarrow> None | Some ph' \<Rightarrow> in_order ph' b)"
  by (induction a arbitrary: ph) (auto split: option.splits)

lemma iter_encode_calls:
  "set (encode_calls (iter_events env w s)) \<subseteq> {(''.jpg'', [IMWRITE_JPEG_QUALITY, 70])}"
  by (auto simp: body_defs iter_events_def split: sum.splits option.splits if_splits prod.splits)

lemma iter_sent_img:
  "p \<in> set (sent_img (iter_events env w s)) \<Longrightarrow>
     \<exists>f ok. imencode env ''.jpg'' f [IMWRITE_JPEG_QUALITY, 70] = Inr (ok, p ! 1)"
  by (auto simp: body_defs iter_events_def img_message_def split: sum.splits option.splits if_splits prod.splits)

lemma iter_closed: "closed (iter_events env w s) = []"
  by (auto simp: body_defs iter_events_def split: sum.splits option.splits if_splits prod.splits)

lemma iter_in_order: "in_order ph (iter_events env w s) \<noteq> None"
  by (auto simp: body_defs iter_events_def split: sum.splits option.splits if_splits prod.splits)

lemma iter_received: "length (received (iter_events env w s)) \<le> 1"
  by (auto simp: body_defs iter_events_def split: sum.splits option.splits if_splits prod.splits)

lemma iter_printed: "printed (iter_events env w s) = []"
  by (auto simp: body_defs iter_events_def split: sum.splits option.splits if_splits prod.splits)

lemma body_eq:
  "body env w s = (fst (body env w s), \<lparr>est = est (snd (body env w s)), trace = trace s @ iter_events env w s\<rparr>)"
  using body_retrace [where env = env and w = w and s = s and t = "trace s"] by simp

lemma loop_stops:
  assumes "fst (body env w s) = Some e"
  shows "loop env (w # ws) s =
     (True, \<lparr>est = est (snd (body env w s)),
             trace = trace s @ iter_events env w s @
               (case e of KeyboardInterrupt \<Rightarrow> [] | Exception m \<Rightarrow> [Print (''[Py Error] '' @ m)])\<rparr>)"
proof -
  obtain r s' where b: "body env w s = (r, s')"
    by (cases "body env w s")
  have r: "r = Some e" and s': "s' = \<lparr>est = est (snd (body env w s)), trace = trace s @ iter_events env w s\<rparr>"
    using assms b body_eq [of env w s] by auto
  show ?thesis
    by (cases e) (simp_all add: b r emit_def, simp_all add: s')
qed

lemma main_stops:
  assumes "loop env pre \<lparr>est = e0, trace = startup_events\<rparr> = (False, s)"
    and "fst (body env w s) = Some e"
  shows "main env e0 (pre @ w # post) =
     (True, \<lparr>est = est (snd (body env w s)),
             trace = trace s @ iter_events env w s @
               (case e of KeyboardInterrupt \<Rightarrow> [] | Exception m \<Rightarrow> [Print (''[Py Error] '' @ m)]) @
               shutdown_events\<rparr>)"
proof -
  have "loop env (pre @ w # post) \<lparr>est = e0, trace = startup_events\<rparr> = loop env (w # post) s"
    using assms(1) by (simp add: loop_append del: loop.simps)
  then show ?thesis
    by (simp add: main_def loop_stops [OF assms(2)] del: loop.simps)
qed

lemma loop_closed: "closed (trace (snd (loop env ws s))) = closed (trace s)"
  by (rule loop_invariant [where P = "\<lambda>t. closed t = closed (trace s)"])
     (simp_all add: closed_append iter_closed)

lemma body_completes_iff:
  "fst (body env w s) = None \<longleftrightarrow>
     poll w = Inr 0 \<or>
     (\<exists>n msg. poll w = Inr n \<and> n \<noteq> 0 \<and> recv_multipart w = Inr msg \<and> 1 < length msg \<and>
        (imdecode env (msg ! 1) = Inr None \<or>
         (\<exists>fr res e'. imdecode env (msg ! 1) = Inr (Some fr) \<and>
            process env (est s) (cvtColor_BGR2RGB fr) = Inr (res, e') \<and>
            send_img w = None \<and>
            (case pose_landmarks res of
               None \<Rightarrow> \<exists>ok buffer. imencode env ''.jpg'' fr [IMWRITE_JPEG_QUALITY, 70] = Inr (ok, buffer)
             | Some lms \<Rightarrow>
                 \<exists>px world ok buffer. draw_landmarks env fr lms = Inr px \<and>
                    pose_world_landmarks res = Some world \<and>
                    imencode env ''.jpg'' (fr\<lparr>pix := px\<rparr>) [IMWRITE_JPEG_QUALITY, 70] = Inr (ok, buffer) \<and>
                    (world = [] \<or> send_pose w = None)))))"
  by (auto simp: body_defs extract_keypoints_Nil split: sum.splits option.splits if_splits prod.splits)

lemma nth_1_tl: "1 < length m \<Longrightarrow> m ! 1 = hd (tl m)"
  by (cases m; cases "tl m") auto

lemma body_same_but_metadata:
  assumes "same_but_metadata w w'" and "est s = est s'"
  shows "fst (body env w s) = fst (body env w' s') \<and>
    est (snd (body env w s)) = est (snd (body env w' s')) \<and>
    outputs (iter_events env w s) = outputs (iter_events env w' s')"
proof (cases "recv_multipart w")
  case (Inl e)
  then show ?thesis
    using assms
    by (auto simp: same_but_metadata_def body_def emit_def Let_def iter_events_def split: sum.splits)
next
  case (Inr m)
  then obtain m' where m': "recv_multipart w' = Inr m'" "length m = length m'" "tl m = tl m'"
    using assms(1) by (auto simp: same_but_metadata_def split: sum.splits)
  have rest: "poll w = poll w'" "time w = time w'" "send_img w = send_img w'" "send_pose w = send_pose w'"
    using assms(1) by (auto simp: same_but_metadata_def)
  show ?thesis
  proof (cases "1 < length m")
    case True
    then have "m ! 1 = m' ! 1"
      using m'(2,3) nth_1_tl [of m] nth_1_tl [of m'] by metis
    then show ?thesis
      using True Inr m' rest assms(2)
      by (auto simp: body_defs iter_events_def img_message_def
          split: sum.splits option.splits if_splits prod.splits)
  next
    case False
    then show ?thesis
      using Inr m' rest assms(2)
      by (auto simp: body_def decode_def emit_def Let_def iter_events_def split: sum.splits)
  qed
qed

lemma sent_img_outputs: "sent_img (outputs t) = sent_img t"
  by (induction t rule: outputs.induct) auto

lemma sent_pose_outputs: "sent_pose (outputs t) = sent_pose t"
  by (induction t rule: outputs.induct) auto

lemma loop_same_but_metadata:
  assumes "list_all2 same_but_metadata ws ws'"
    and "est s = est s'" and "outputs (trace s) = outputs (trace s')"
  shows "fst (loop env ws s) = fst (loop env ws' s') \<and>
    est (snd (loop env ws s)) = est (snd (loop env ws' s')) \<and>
    outputs (trace (snd (loop env ws s))) = outputs (trace (snd (loop env ws' s')))"
  using assms
proof (induction ws ws' arbitrary: s s' rule: list_all2_induct)
  case Nil
  then show ?case by simp
next
  case (Cons w ws w' ws')
  let ?t = "\<lparr>est = est (snd (body env w s)), trace = trace s @ iter_events env w s\<rparr>"
  let ?t' = "\<lparr>est = est (snd (body env w' s')), trace = trace s' @ iter_events env w' s'\<rparr>"
  have b: "body env w s = (fst (body env w s), ?t)" "body env w' s' = (fst (body env w' s'), ?t')"
    by (rule body_eq)+
  have same: "fst (body env w s) = fst (body env w' s')" "est ?t = est ?t'"
    "outputs (trace ?t) = outputs (trace ?t')"
    using body_same_but_metadata [OF Cons.hyps(1) Cons.prems(1), of env] Cons.prems(2)
    by (simp_all add: outputs_append)
  show ?case
  proof (cases "fst (body env w s)")
    case None
    then have "loop env (w # ws) s = loop env ws ?t" "loop env (w' # ws') s' = loop env ws' ?t'"
      using same(1) by (subst loop.simps, subst b, simp)+
    then show ?thesis
      using Cons.IH [OF same(2,3)] by simp
  next
    case (Some e)
    then have "fst (body env w' s') = Some e"
      using same(1) by simp
    then show ?thesis
      using loop_stops [OF Some, of ws] loop_stops [of env w' s' e ws'] same(2,3)
      by (simp add: outputs_append del: loop.simps)
  qed
qed

lemmas tick_defs = tick_pose_def tick_nopose_def tick_bad_def tick_pose_meta_def tick_short_def
  tick_idle_def tick_interrupt_def tick_sendfail_def

lemma idle_pass:
  "loop stub_env [tick_idle] \<lparr>est = 0, trace = startup_events\<rparr> =
     (False, \<lparr>est = 0, trace = startup_events @ [Poll 10]\<rparr>)"
  by (simp add: body_def emit_def tick_idle_def)

subsection \<open>The key point message\<close>

text \<open>
  C1. In a pass whose frame decodes and whose estimator returns \<open>res\<close>, a key point message
  is published exactly when the pass raises nothing and \<open>res\<close> holds image landmarks and a
  non-empty list of N world landmarks. The message then has two parts: the JSON text
  \<open>{"count": N}\<close>, and for each world landmark in order the four little-endian bytes of its
  x, y, z and visibility as 32-bit floats, 16 N bytes in all. Hence no message with count 0
  is published.
\<close>

theorem pose_message_iff_landmarks:
  assumes "poll w = Inr n" and "n \<noteq> 0" and "recv_multipart w = Inr msg" and "1 < length msg"
    and "imdecode env (msg ! 1) = Inr (Some fr)"
    and "process env (est s) (cvtColor_BGR2RGB fr) = Inr (res, e')"
  shows "sent_pose (iter_events env w s) =
     (case (pose_landmarks res, pose_world_landmarks res) of
        (Some lms, Some world) \<Rightarrow>
          if world \<noteq> [] \<and> fst (body env w s) = None
          then [[encode_utf8 (''{\"count\": '' @ str_int (int (length world)) @ ''}''),
                 concat (map (\<lambda>lm. le_bytes32 (float32 env (lm_x lm)) @
                                    le_bytes32 (float32 env (lm_y lm)) @
                                    le_bytes32 (float32 env (lm_z lm)) @
                                    le_bytes32 (float32 env (lm_visibility lm))) world)]]
          else []
      | _ \<Rightarrow> []) \<and>
     (\<forall>p \<in> set (sent_pose (iter_events env w s)).
        \<exists>world. pose_world_landmarks res = Some world \<and> 0 < length world \<and> length p = 2 \<and>
          p ! 0 = encode_utf8 (''{\"count\": '' @ str_int (int (length world)) @ ''}'') \<and>
          length (p ! 1) = 4 * length world * 4)"
proof -
  have first: "sent_pose (iter_events env w s) =
     (case (pose_landmarks res, pose_world_landmarks res) of
        (Some lms, Some world) \<Rightarrow>
          if world \<noteq> [] \<and> fst (body env w s) = None
          then pose_message env world (extract_keypoints world) # []
          else []
      | _ \<Rightarrow> [])"
    using assms
    by (auto simp: body_defs iter_events_def extract_keypoints_Nil
        split: sum.splits option.splits if_splits prod.splits)
  have parts: "pose_message env world (extract_keypoints world) =
      [encode_utf8 (''{\"count\": '' @ str_int (int (length world)) @ ''}''),
       concat (map (\<lambda>lm. le_bytes32 (float32 env (lm_x lm)) @
                          le_bytes32 (float32 env (lm_y lm)) @
                          le_bytes32 (float32 env (lm_z lm)) @
                          le_bytes32 (float32 env (lm_visibility lm))) world)]" for world
    by (simp add: pose_message_def json_dumps_def tobytes_landmarks)
  have len: "length (pose_message env world (extract_keypoints world) ! 1) = 4 * length world * 4"
    for world
    by (simp add: pose_message_def length_tobytes_float32 length_extract_keypoints)
  show ?thesis
  proof (intro conjI ballI)
    show "sent_pose (iter_events env w s) =
     (case (pose_landmarks res, pose_world_landmarks res) of
        (Some lms, Some world) \<Rightarrow>
          if world \<noteq> [] \<and> fst (body env w s) = None
          then [[encode_utf8 (''{\"count\": '' @ str_int (int (length world)) @ ''}''),
                 concat (map (\<lambda>lm. le_bytes32 (float32 env (lm_x lm)) @
                                    le_bytes32 (float32 env (lm_y lm)) @
                                    le_bytes32 (float32 env (lm_z lm)) @
                                    le_bytes32 (float32 env (lm_visibility lm))) world)]]
          else []
      | _ \<Rightarrow> [])"
      unfolding first by (auto simp: parts split: option.splits)
  next
    fix p
    assume "p \<in> set (sent_pose (iter_events env w s))"
    then obtain lms world where w: "pose_landmarks res = Some lms"
      "pose_world_landmarks res = Some world" "world \<noteq> []"
      "p = pose_message env world (extract_keypoints world)"
      unfolding first
      by (cases "pose_landmarks res"; cases "pose_world_landmarks res") (auto split: if_splits)
    have "length p = 2" "p ! 0 = encode_utf8 (''{\"count\": '' @ str_int (int (length world)) @ ''}'')"
      using w(4) by (simp_all add: parts)
    moreover have "length (p ! 1) = 4 * length world * 4"
      using w(4) len by simp
    ultimately show "\<exists>world. pose_world_landmarks res = Some world \<and> 0 < length world \<and>
          length p = 2 \<and>
          p ! 0 = encode_utf8 (''{\"count\": '' @ str_int (int (length world)) @ ''}'') \<and>
          length (p ! 1) = 4 * length world * 4"
      using w(2,3) by auto
  qed
qed

theorem pose_message_iff_landmarks_witness:
  "sent_pose (iter_events stub_env tick_pose state0) =
     [[encode_utf8 ''{\"count\": 1}'', [1, 0, 0, 0, 2, 0, 0, 0, 3, 0, 0, 0, 4, 0, 0, 0]]]"
proof -
  have h: "poll tick_pose = Inr 1" "(1::nat) \<noteq> 0" "recv_multipart tick_pose = Inr [[], [1]]"
    "1 < length [[], [1::byte]]"
    "imdecode stub_env ([[], [1]] ! 1) = Inr (Some \<lparr>shape0 = 1, shape1 = 1, pix = [(1, 0, 0)]\<rparr>)"
    "process stub_env (est state0) (cvtColor_BGR2RGB \<lparr>shape0 = 1, shape1 = 1, pix = [(1, 0, 0)]\<rparr>) =
       Inr (\<lparr>pose_landmarks = Some [stub_lm], pose_world_landmarks = Some [stub_lm]\<rparr>, 1)"
    by (simp_all add: tick_pose_def stub_env_def state0_def cvtColor_BGR2RGB_def)
  have b: "fst (body stub_env tick_pose state0) = None"
    by (simp add: body_defs tick_pose_def stub_defs extract_keypoints_Nil)
  show ?thesis
    using pose_message_iff_landmarks [OF h] b
    by (simp add: stub_lm_def stub_env_def le_bytes32_def str_int_1)
qed

subsection \<open>The preview message\<close>

text \<open>
  C2. In a pass whose frame decodes, whose estimator returns \<open>res\<close> and which raises
  nothing, exactly one preview message is published. Its payload is what \<open>imencode\<close>
  returns for the decoded frame itself when \<open>res\<close> holds no image landmarks, and for the
  frame with the skeleton drawn on it when it does. Its metadata is the JSON text
  \<open>{"w": W, "h": H, "ts": T}\<close> with W the frame's \<open>shape[1]\<close>, H its \<open>shape[0]\<close> and T the
  clock as a float.
\<close>

theorem preview_message_once:
  assumes "poll w = Inr n" and "n \<noteq> 0" and "recv_multipart w = Inr msg" and "1 < length msg"
    and "imdecode env (msg ! 1) = Inr (Some fr)"
    and "process env (est s) (cvtColor_BGR2RGB fr) = Inr (res, e')"
    and "fst (body env w s) = None"
  shows "\<exists>buf ok buffer.
      (case pose_landmarks res of
         None \<Rightarrow> buf = fr
       | Some lms \<Rightarrow> \<exists>px. draw_landmarks env fr lms = Inr px \<and> buf = fr\<lparr>pix := px\<rparr>) \<and>
      imencode env ''.jpg'' buf [IMWRITE_JPEG_QUALITY, 70] = Inr (ok, buffer) \<and>
      sent_img (iter_events env w s) =
        [[encode_utf8 (''{\"w\": '' @ str_int (int (shape1 fr)) @ '', \"h\": '' @
                       str_int (int (shape0 fr)) @ '', \"ts\": '' @ float_repr env (time w) @ ''}''),
          buffer]]"
  using assms
  by (auto simp: body_defs iter_events_def img_message_def json_dumps_def
      split: sum.splits option.splits if_splits prod.splits)

theorem preview_message_once_witness:
  "sent_img (iter_events stub_env tick_pose state0) =
     [[encode_utf8 ''{\"w\": 1, \"h\": 1, \"ts\": 0.0}'', [1, 255, 0]]] \<and>
   sent_img (iter_events stub_env tick_nopose state0) =
     [[encode_utf8 ''{\"w\": 1, \"h\": 1, \"ts\": 0.0}'', [2, 0, 0]]]"
proof -
  have h: "poll tick_pose = Inr 1" "(1::nat) \<noteq> 0" "recv_multipart tick_pose = Inr [[], [1]]"
    "1 < length [[], [1::byte]]"
    "imdecode stub_env ([[], [1]] ! 1) = Inr (Some \<lparr>shape0 = 1, shape1 = 1, pix = [(1, 0, 0)]\<rparr>)"
    "process stub_env (est state0) (cvtColor_BGR2RGB \<lparr>shape0 = 1, shape1 = 1, pix = [(1, 0, 0)]\<rparr>) =
       Inr (\<lparr>pose_landmarks = Some [stub_lm], pose_world_landmarks = Some [stub_lm]\<rparr>, 1)"
    "fst (body stub_env tick_pose state0) = None"
    by (simp_all add: body_defs tick_pose_def stub_defs extract_keypoints_Nil)
  have h2: "poll tick_nopose = Inr 1" "(1::nat) \<noteq> 0" "recv_multipart tick_nopose = Inr [[], [2]]"
    "1 < length [[], [2::byte]]"
    "imdecode stub_env ([[], [2]] ! 1) = Inr (Some \<lparr>shape0 = 1, shape1 = 1, pix = [(2, 0, 0)]\<rparr>)"
    "process stub_env (est state0) (cvtColor_BGR2RGB \<lparr>shape0 = 1, shape1 = 1, pix = [(2, 0, 0)]\<rparr>) =
       Inr (\<lparr>pose_landmarks = None, pose_world_landmarks = None\<rparr>, 1)"
    "fst (body stub_env tick_nopose state0) = None"
    by (simp_all add: body_defs tick_nopose_def stub_defs extract_keypoints_Nil)
  show ?thesis
    using preview_message_once [OF h] preview_message_once [OF h2]
    by (auto simp: stub_env_def tick_pose_def tick_nopose_def str_int_1 IMWRITE_JPEG_QUALITY_def)
qed

subsection \<open>Frames that do not decode\<close>

text \<open>
  C3, as amended. When the payload of the message received does not decode (\<open>imdecode\<close>
  returns \<open>None\<close>), the pass ends without raising and without any trace but the poll, the
  receive and the decode call: nothing is published on either socket and nothing is
  printed, not even a log line. The loop goes on with the next tick, and that tick is
  processed exactly as it would have been had the bad message never arrived.
\<close>

theorem decode_failure_skipped:
  assumes "poll w = Inr n" and "n \<noteq> 0" and "recv_multipart w = Inr msg" and "1 < length msg"
    and "imdecode env (msg ! 1) = Inr None"
  shows "body env w s = (None, s\<lparr>trace := trace s @ [Poll 10, Recv msg, Imdecode (msg ! 1)]\<rparr>) \<and>
    sent_img (iter_events env w s) = [] \<and> sent_pose (iter_events env w s) = [] \<and>
    printed (iter_events env w s) = [] \<and>
    loop env (w # ws) s = loop env ws (s\<lparr>trace := trace s @ [Poll 10, Recv msg, Imdecode (msg ! 1)]\<rparr>) \<and>
    fst (body env w2 (snd (body env w s))) = fst (body env w2 s) \<and>
    est (snd (body env w2 (snd (body env w s)))) = est (snd (body env w2 s)) \<and>
    iter_events env w2 (snd (body env w s)) = iter_events env w2 s"
proof -
  have b: "body env w s = (None, s\<lparr>trace := trace s @ [Poll 10, Recv msg, Imdecode (msg ! 1)]\<rparr>)"
    using assms by (simp add: body_def decode_def emit_def)
  have i: "iter_events env w s = [Poll 10, Recv msg, Imdecode (msg ! 1)]"
    by (simp add: iter_events_def b)
  have n: "body env w2 (snd (body env w s)) =
      (fst (body env w2 s), \<lparr>est = est (snd (body env w2 s)),
         trace = (trace s @ [Poll 10, Recv msg, Imdecode (msg ! 1)]) @ iter_events env w2 s\<rparr>)"
    unfolding b snd_conv by (rule body_retrace)
  have "iter_events env w2 (snd (body env w s)) = iter_events env w2 s"
    unfolding iter_events_def [of env w2 "snd (body env w s)"] n by (simp add: b)
  then show ?thesis
    by (simp add: i n) (simp add: b)
qed

theorem decode_failure_skipped_witness:
  "body stub_env tick_bad state0 = (None, \<lparr>est = 0, trace = [Poll 10, Recv [[], [0, 9]], Imdecode [0, 9]]\<rparr>) \<and>
   loop stub_env (tick_bad # [tick_pose]) state0 =
     loop stub_env [tick_pose] \<lparr>est = 0, trace = [Poll 10, Recv [[], [0, 9]], Imdecode [0, 9]]\<rparr> \<and>
   iter_events stub_env tick_pose (snd (body stub_env tick_bad state0)) =
     iter_events stub_env tick_pose state0"
proof -
  have h: "poll tick_bad = Inr 1" "(1::nat) \<noteq> 0" "recv_multipart tick_bad = Inr [[], [0, 9]]"
    "1 < length [[], [0, 9 :: byte]]" "imdecode stub_env ([[], [0, 9]] ! 1) = Inr None"
    by (simp_all add: tick_bad_def stub_defs)
  note t = decode_failure_skipped [OF h, of state0 "[tick_pose]" tick_pose]
  show ?thesis
  proof (intro conjI)
    show "body stub_env tick_bad state0 =
        (None, \<lparr>est = 0, trace = [Poll 10, Recv [[], [0, 9]], Imdecode [0, 9]]\<rparr>)"
      using t by (simp add: state0_def)
    show "loop stub_env (tick_bad # [tick_pose]) state0 =
        loop stub_env [tick_pose] \<lparr>est = 0, trace = [Poll 10, Recv [[], [0, 9]], Imdecode [0, 9]]\<rparr>"
      using t by (simp add: state0_def del: loop.simps)
    show "iter_events stub_env tick_pose (snd (body stub_env tick_bad state0)) =
        iter_events stub_env tick_pose state0"
      using t by blast
  qed
qed

text \<open>
  The claim as written has the failure logged. It is not: on the stub, the pass over a
  payload that does not decode prints nothing.
\<close>

theorem decode_failure_log_counterexample:
  "imdecode stub_env [0, 9] = Inr None \<and>
   body stub_env tick_bad state0 = (None, \<lparr>est = 0, trace = [Poll 10, Recv [[], [0, 9]], Imdecode [0, 9]]\<rparr>) \<and>
   printed (trace (snd (body stub_env tick_bad state0))) = []"
  by (simp add: body_def decode_def emit_def tick_bad_def stub_defs)

subsection \<open>Errors\<close>

text \<open>
  C4. When a pass raises, \<open>main\<close> leaves the loop at once: an \<open>Exception\<close> is printed, then
  the shutdown lines run, and no later tick is polled. A pass with a message completes
  without raising only if the poll, the receive, the decode, the estimator, the drawing,
  the encoding and each send all returned normally, or if the decode returned \<open>None\<close>: a
  failure of any of these calls makes the pass raise, and the skip on a frame that does not
  decode is the only failure the loop survives.
\<close>

theorem errors_are_fatal:
  assumes "loop env pre \<lparr>est = e0, trace = startup_events\<rparr> = (False, s)"
  shows "(\<forall>e. fst (body env w s) = Some e \<longrightarrow>
       main env e0 (pre @ w # post) =
         (True, \<lparr>est = est (snd (body env w s)),
                 trace = trace s @ iter_events env w s @
                   (case e of KeyboardInterrupt \<Rightarrow> [] | Exception m \<Rightarrow> [Print (''[Py Error] '' @ m)]) @
                   [Print ''[Py] Shutting down.'', Close Socket_sub, Close Socket_pub_img,
                    Close Socket_pub_pose, Term]\<rparr>)) \<and>
    (fst (body env w s) = None \<longleftrightarrow>
     poll w = Inr 0 \<or>
     (\<exists>n msg. poll w = Inr n \<and> n \<noteq> 0 \<and> recv_multipart w = Inr msg \<and> 1 < length msg \<and>
        (imdecode env (msg ! 1) = Inr None \<or>
         (\<exists>fr res e'. imdecode env (msg ! 1) = Inr (Some fr) \<and>
            process env (est s) (cvtColor_BGR2RGB fr) = Inr (res, e') \<and>
            send_img w = None \<and>
            (case pose_landmarks res of
               None \<Rightarrow> \<exists>ok buffer. imencode env ''.jpg'' fr [IMWRITE_JPEG_QUALITY, 70] = Inr (ok, buffer)
             | Some lms \<Rightarrow>
                 \<exists>px world ok buffer. draw_landmarks env fr lms = Inr px \<and>
                    pose_world_landmarks res = Some world \<and>
                    imencode env ''.jpg'' (fr\<lparr>pix := px\<rparr>) [IMWRITE_JPEG_QUALITY, 70] = Inr (ok, buffer) \<and>
                    (world = [] \<or> send_pose w = None))))))"
  using main_stops [OF assms, of w _ post] body_completes_iff [of env w s]
  by (simp add: shutdown_events_def)

theorem errors_are_fatal_witness:
  "fst (body stub_env tick_sendfail \<lparr>est = 0, trace = startup_events @ [Poll 10]\<rparr>) =
     Some (Exception ''Socket operation on non-socket'') \<and>
   main stub_env 0 ([tick_idle] @ tick_sendfail # [tick_pose]) =
     (True, \<lparr>est = 1, trace = startup_events @
        [Poll 10, Poll 10, Recv [[], [1]], Imdecode [1],
         Process \<lparr>shape0 = 1, shape1 = 1, pix = [(0, 0, 1)]\<rparr>,
         DrawLandmarks \<lparr>shape0 = 1, shape1 = 1, pix = [(1, 0, 0)]\<rparr> [stub_lm],
         Imencode ''.jpg'' \<lparr>shape0 = 1, shape1 = 1, pix = [(1, 255, 0)]\<rparr> [1, 70],
         Print ''[Py Error] Socket operation on non-socket'',
         Print ''[Py] Shutting down.'', Close Socket_sub, Close Socket_pub_img,
         Close Socket_pub_pose, Term]\<rparr>)"
proof -
  have b: "body stub_env tick_sendfail \<lparr>est = 0, trace = startup_events @ [Poll 10]\<rparr> =
     (Some (Exception ''Socket operation on non-socket''),
      \<lparr>est = 1, trace = startup_events @
        [Poll 10, Poll 10, Recv [[], [1]], Imdecode [1],
         Process \<lparr>shape0 = 1, shape1 = 1, pix = [(0, 0, 1)]\<rparr>,
         DrawLandmarks \<lparr>shape0 = 1, shape1 = 1, pix = [(1, 0, 0)]\<rparr> [stub_lm],
         Imencode ''.jpg'' \<lparr>shape0 = 1, shape1 = 1, pix = [(1, 255, 0)]\<rparr> [1, 70]]\<rparr>)"
    by (simp add: body_defs tick_sendfail_def stub_defs IMWRITE_JPEG_QUALITY_def)
  have i: "iter_events stub_env tick_sendfail \<lparr>est = 0, trace = startup_events @ [Poll 10]\<rparr> =
      [Poll 10, Recv [[], [1]], Imdecode [1],
         Process \<lparr>shape0 = 1, shape1 = 1, pix = [(0, 0, 1)]\<rparr>,
         DrawLandmarks \<lparr>shape0 = 1, shape1 = 1, pix = [(1, 0, 0)]\<rparr> [stub_lm],
         Imencode ''.jpg'' \<lparr>shape0 = 1, shape1 = 1, pix = [(1, 255, 0)]\<rparr> [1, 70]]"
    by (simp add: iter_events_def b)
  show ?thesis
    using errors_are_fatal [OF idle_pass, of tick_sendfail "[tick_pose]"]
    by (simp add: b i)
qed

subsection \<open>One message per pass, in order\<close>

text \<open>
  C5. A pass of the loop receives at most one message, and what it does depends on its own
  tick and the estimator only, not on what earlier passes left. In the trace of any run of \<open>main\<close>
  a message is received only right after the poll of its pass, a preview is sent only after
  the message received in the same pass and at most once, and a key point message only
  after that preview and at most once: all that is published for a frame is published
  before the next poll and receive, so each socket carries its messages in the order in
  which their frames were received.
\<close>

theorem one_message_per_pass:
  "length (received (iter_events env w s)) \<le> 1 \<and>
   iter_events env w (s\<lparr>trace := t\<rparr>) = iter_events env w s \<and>
   in_order Idle (trace (snd (main env e0 ws))) \<noteq> None"
proof -
  have "in_order Idle (trace (snd (loop env ws \<lparr>est = e0, trace = startup_events\<rparr>))) \<noteq> None"
  proof (rule loop_invariant)
    show "in_order Idle (trace \<lparr>est = e0, trace = startup_events\<rparr>) \<noteq> None"
      by (simp add: startup_events_def)
  next
    fix t w and s' :: "'a state"
    assume "in_order Idle t \<noteq> None"
    then show "in_order Idle (t @ iter_events env w s') \<noteq> None"
      using iter_in_order by (auto simp: in_order_append split: option.splits)
  next
    fix t m
    assume "in_order Idle t \<noteq> None"
    then show "in_order Idle (t @ [Print m]) \<noteq> None"
      by (auto simp: in_order_append split: option.splits)
  qed
  then have "in_order Idle (trace (snd (main env e0 ws))) \<noteq> None"
    by (auto simp: main_trace in_order_append shutdown_events_def split: option.splits)
  moreover have "iter_events env w (s\<lparr>trace := t\<rparr>) = iter_events env w s"
    by (simp add: iter_events_def [of env w "s\<lparr>trace := t\<rparr>"] body_retrace)
  ultimately show ?thesis
    using iter_received by blast
qed

theorem one_message_per_pass_witness:
  "length (received (iter_events stub_env tick_pose state0)) = 1 \<and>
   in_order Idle (trace (snd (main stub_env 0 [tick_pose, tick_nopose, tick_interrupt]))) = Some Polled"
  using one_message_per_pass [where env = stub_env and w = tick_pose and s = state0 and ?e0.0 = 0
      and ws = "[tick_pose, tick_nopose, tick_interrupt]"]
  by (simp add: main_def iter_events_def body_defs tick_defs stub_defs extract_keypoints_Nil
      startup_events_def shutdown_events_def)

subsection \<open>Shutdown\<close>

text \<open>
  C6. When a pass raises \<open>KeyboardInterrupt\<close>, \<open>main\<close> leaves the loop without printing an
  error, prints the shutdown line, closes the subscription, the preview publisher and the
  key point publisher in that order and terminates the context; no later tick is looked
  at. In every run, once the loop has been left each of the three handles has been closed
  exactly once, in that order; while the loop runs none has been closed.
\<close>

theorem interrupt_closes_handles:
  assumes "loop env pre \<lparr>est = e0, trace = startup_events\<rparr> = (False, s)"
    and "fst (body env w s) = Some KeyboardInterrupt"
  shows "main env e0 (pre @ w # post) =
      (True, \<lparr>est = est (snd (body env w s)),
              trace = trace s @ iter_events env w s @
                [Print ''[Py] Shutting down.'', Close Socket_sub, Close Socket_pub_img,
                 Close Socket_pub_pose, Term]\<rparr>) \<and>
    printed (trace (snd (main env e0 (pre @ w # post)))) = printed (trace s) @ [''[Py] Shutting down.''] \<and>
    closed (trace (snd (main env e0 ws))) =
      (if fst (main env e0 ws) then [Socket_sub, Socket_pub_img, Socket_pub_pose] else [])"
proof -
  have m: "main env e0 (pre @ w # post) =
      (True, \<lparr>est = est (snd (body env w s)),
              trace = trace s @ iter_events env w s @ shutdown_events\<rparr>)"
    using main_stops [OF assms, of post] by simp
  have c: "closed (trace (snd (main env e0 ws))) =
      (if fst (main env e0 ws) then [Socket_sub, Socket_pub_img, Socket_pub_pose] else [])"
    by (simp add: main_trace closed_append loop_closed startup_events_def shutdown_events_def)
  show ?thesis
    using c by (simp add: m shutdown_events_def printed_append iter_printed)
qed

theorem interrupt_closes_handles_witness:
  "main stub_env 0 ([tick_idle] @ tick_interrupt # [tick_pose]) =
     (True, \<lparr>est = 0, trace = startup_events @
        [Poll 10, Poll 10, Print ''[Py] Shutting down.'', Close Socket_sub, Close Socket_pub_img,
         Close Socket_pub_pose, Term]\<rparr>) \<and>
   closed (trace (snd (main stub_env 0 ([tick_idle] @ tick_interrupt # [tick_pose])))) =
     [Socket_sub, Socket_pub_img, Socket_pub_pose]"
proof -
  have b: "body stub_env tick_interrupt \<lparr>est = 0, trace = startup_events @ [Poll 10]\<rparr> =
      (Some KeyboardInterrupt, \<lparr>est = 0, trace = startup_events @ [Poll 10, Poll 10]\<rparr>)"
    by (simp add: body_def emit_def tick_interrupt_def)
  then have h: "fst (body stub_env tick_interrupt \<lparr>est = 0, trace = startup_events @ [Poll 10]\<rparr>) =
      Some KeyboardInterrupt"
    by simp
  have i: "iter_events stub_env tick_interrupt \<lparr>est = 0, trace = startup_events @ [Poll 10]\<rparr> = [Poll 10]"
    by (simp add: iter_events_def b)
  have m: "main stub_env 0 ([tick_idle] @ tick_interrupt # [tick_pose]) =
     (True, \<lparr>est = 0, trace = startup_events @
        [Poll 10, Poll 10, Print ''[Py] Shutting down.'', Close Socket_sub, Close Socket_pub_img,
         Close Socket_pub_pose, Term]\<rparr>)"
    using interrupt_closes_handles [OF idle_pass h, of "[tick_pose]"] by (simp add: i b)
  show ?thesis
    unfolding m by (simp add: startup_events_def)
qed

subsection \<open>Colour order\<close>

text \<open>
  C7. In a pass whose frame \<open>fr\<close> decodes, the estimator is called once, on a copy of \<open>fr\<close>
  with the first and third sample of every pixel exchanged; the skeleton is drawn on \<open>fr\<close>
  itself, \<open>imencode\<close> is handed \<open>fr\<close> itself (with the drawing, when there is one), and
  the payload of a preview that is sent is what that call returned.
\<close>

theorem estimate_on_rgb_copy:
  assumes "poll w = Inr n" and "n \<noteq> 0" and "recv_multipart w = Inr msg" and "1 < length msg"
    and "imdecode env (msg ! 1) = Inr (Some fr)"
    and "process env (est s) (cvtColor_BGR2RGB fr) = Inr (res, e')"
  shows "pixel_calls (iter_events env w s) =
     Process \<lparr>shape0 = shape0 fr, shape1 = shape1 fr, pix = map (\<lambda>(b, g, r). (r, g, b)) (pix fr)\<rparr> #
     (case pose_landmarks res of
        None \<Rightarrow> [Imencode ''.jpg'' fr [IMWRITE_JPEG_QUALITY, 70]]
      | Some lms \<Rightarrow>
          DrawLandmarks fr lms #
          (case (draw_landmarks env fr lms, pose_world_landmarks res) of
             (Inr px, Some world) \<Rightarrow> [Imencode ''.jpg'' (fr\<lparr>pix := px\<rparr>) [IMWRITE_JPEG_QUALITY, 70]]
           | _ \<Rightarrow> [])) \<and>
     (\<forall>p \<in> set (sent_img (iter_events env w s)).
        \<exists>ext f ps ok. Imencode ext f ps \<in> set (iter_events env w s) \<and>
           imencode env ext f ps = Inr (ok, p ! 1))"
  using assms
  by (auto simp: body_defs iter_events_def img_message_def cvtColor_BGR2RGB_def
      split: sum.splits option.splits if_splits prod.splits)

theorem estimate_on_rgb_copy_witness:
  "pixel_calls (iter_events stub_env tick_pose state0) =
     [Process \<lparr>shape0 = 1, shape1 = 1, pix = [(0, 0, 1)]\<rparr>,
      DrawLandmarks \<lparr>shape0 = 1, shape1 = 1, pix = [(1, 0, 0)]\<rparr> [stub_lm],
      Imencode ''.jpg'' \<lparr>shape0 = 1, shape1 = 1, pix = [(1, 255, 0)]\<rparr> [1, 70]] \<and>
   sent_img (iter_events stub_env tick_pose state0) =
     [[encode_utf8 ''{\"w\": 1, \"h\": 1, \"ts\": 0.0}'', [1, 255, 0]]]"
proof -
  have h: "poll tick_pose = Inr 1" "(1::nat) \<noteq> 0" "recv_multipart tick_pose = Inr [[], [1]]"
    "1 < length [[], [1::byte]]"
    "imdecode stub_env ([[], [1]] ! 1) = Inr (Some \<lparr>shape0 = 1, shape1 = 1, pix = [(1, 0, 0)]\<rparr>)"
    "process stub_env (est state0) (cvtColor_BGR2RGB \<lparr>shape0 = 1, shape1 = 1, pix = [(1, 0, 0)]\<rparr>) =
       Inr (\<lparr>pose_landmarks = Some [stub_lm], pose_world_landmarks = Some [stub_lm]\<rparr>, 1)"
    by (simp_all add: tick_pose_def stub_defs)
  have i: "sent_img (iter_events stub_env tick_pose state0) =
     [[encode_utf8 ''{\"w\": 1, \"h\": 1, \"ts\": 0.0}'', [1, 255, 0]]]"
    by (simp add: iter_events_def body_defs tick_pose_def stub_defs extract_keypoints_Nil
        img_message_def json_dumps_def str_int_1)
  show ?thesis
    using estimate_on_rgb_copy [OF h] i
    by (simp add: stub_env_def IMWRITE_JPEG_QUALITY_def)
qed

subsection \<open>Inbound metadata\<close>

text \<open>
  C8. Two runs of \<open>main\<close> whose ticks agree in everything but part 0 of the messages
  received leave the loop alike, publish the same preview and key point messages, and make
  the same calls and prints throughout.
\<close>

theorem metadata_not_inspected:
  assumes "list_all2 same_but_metadata ws ws'"
  shows "fst (main env e0 ws) = fst (main env e0 ws') \<and>
    outputs (trace (snd (main env e0 ws))) = outputs (trace (snd (main env e0 ws'))) \<and>
    sent_img (trace (snd (main env e0 ws))) = sent_img (trace (snd (main env e0 ws'))) \<and>
    sent_pose (trace (snd (main env e0 ws))) = sent_pose (trace (snd (main env e0 ws')))"
proof -
  have l: "fst (loop env ws \<lparr>est = e0, trace = startup_events\<rparr>) =
      fst (loop env ws' \<lparr>est = e0, trace = startup_events\<rparr>)"
    "outputs (trace (snd (loop env ws \<lparr>est = e0, trace = startup_events\<rparr>))) =
      outputs (trace (snd (loop env ws' \<lparr>est = e0, trace = startup_events\<rparr>)))"
    using loop_same_but_metadata [OF assms, of "\<lparr>est = e0, trace = startup_events\<rparr>"
        "\<lparr>est = e0, trace = startup_events\<rparr>" env]
    by simp_all
  have o: "outputs (trace (snd (main env e0 ws))) = outputs (trace (snd (main env e0 ws')))"
    using l by (simp add: main_trace main_exit outputs_append)
  have si: "sent_img (trace (snd (main env e0 ws))) = sent_img (trace (snd (main env e0 ws')))"
    using arg_cong [OF o, of sent_img] by (simp only: sent_img_outputs)
  have sp: "sent_pose (trace (snd (main env e0 ws))) = sent_pose (trace (snd (main env e0 ws')))"
    using arg_cong [OF o, of sent_pose] by (simp only: sent_pose_outputs)
  show ?thesis
    using l(1) o si sp by (simp add: main_exit)
qed

theorem metadata_not_inspected_witness:
  "list_all2 same_but_metadata [tick_pose, tick_bad] [tick_pose_meta, tick_bad] \<and>
   sent_img (trace (snd (main stub_env 0 [tick_pose, tick_bad]))) =
     sent_img (trace (snd (main stub_env 0 [tick_pose_meta, tick_bad]))) \<and>
   sent_pose (trace (snd (main stub_env 0 [tick_pose, tick_bad]))) =
     sent_pose (trace (snd (main stub_env 0 [tick_pose_meta, tick_bad])))"
proof -
  have h: "list_all2 same_but_metadata [tick_pose, tick_bad] [tick_pose_meta, tick_bad]"
    by (simp add: same_but_metadata_def tick_defs)
  show ?thesis
    using h metadata_not_inspected [OF h, of stub_env 0] by simp
qed

subsection \<open>Messages of fewer than two parts\<close>

text \<open>
  C9. When the message received has fewer than two parts, \<open>msg[1]\<close> raises \<open>IndexError\<close>
  inside the \<open>try\<close>: nothing is decoded or published, the handler prints the error and
  leaves the loop, the shutdown lines run, and the ticks that follow are never processed.
\<close>

theorem short_message_is_fatal:
  assumes "loop env pre \<lparr>est = e0, trace = startup_events\<rparr> = (False, s)"
    and "poll w = Inr n" and "n \<noteq> 0" and "recv_multipart w = Inr msg" and "length msg < 2"
  shows "body env w s = (Some (Exception ''list index out of range''), s\<lparr>trace := trace s @ [Poll 10, Recv msg]\<rparr>) \<and>
    main env e0 (pre @ w # post) =
      (True, s\<lparr>trace := trace s @
                [Poll 10, Recv msg, Print ''[Py Error] list index out of range'',
                 Print ''[Py] Shutting down.'', Close Socket_sub, Close Socket_pub_img,
                 Close Socket_pub_pose, Term]\<rparr>)"
proof -
  have b: "body env w s = (Some (Exception ''list index out of range''), s\<lparr>trace := trace s @ [Poll 10, Recv msg]\<rparr>)"
    using assms(2-5) by (simp add: body_def decode_def emit_def IndexError_list_def)
  then have i: "iter_events env w s = [Poll 10, Recv msg]" "est (snd (body env w s)) = est s"
    by (simp_all add: iter_events_def)
  have "fst (body env w s) = Some (Exception ''list index out of range'')"
    by (simp add: b)
  from main_stops [OF assms(1) this, of post] show ?thesis
    by (simp add: b i shutdown_events_def)
qed

theorem short_message_is_fatal_witness:
  "main stub_env 0 ([tick_idle] @ tick_short # [tick_pose]) =
     (True, \<lparr>est = 0, trace = startup_events @
        [Poll 10, Poll 10, Recv [[1]], Print ''[Py Error] list index out of range'',
         Print ''[Py] Shutting down.'', Close Socket_sub, Close Socket_pub_img,
         Close Socket_pub_pose, Term]\<rparr>)"
proof -
  have h: "poll tick_short = Inr 1" "(1::nat) \<noteq> 0" "recv_multipart tick_short = Inr [[1]]"
    "length [[1::byte]] < 2"
    by (simp_all add: tick_short_def)
  show ?thesis
    using short_message_is_fatal [OF idle_pass h, where post = "[tick_pose]"] by simp
qed

subsection \<open>Encoding quality\<close>

text \<open>
  C10. Whatever the libraries and the world do, every call of \<open>imencode\<close> in a run of
  \<open>main\<close> asks for \<open>.jpg\<close> with the parameter list \<open>[IMWRITE_JPEG_QUALITY, 70]\<close>, and the
  payload of every preview published is the buffer such a call returned: the quality is
  the constant 70, and \<open>main\<close> takes no argument that could change it.
\<close>

theorem jpeg_quality_70:
  "(\<forall>c \<in> set (encode_calls (trace (snd (main env e0 ws)))). c = (''.jpg'', [IMWRITE_JPEG_QUALITY, 70])) \<and>
   (\<forall>p \<in> set (sent_img (trace (snd (main env e0 ws)))).
      \<exists>f ok. imencode env ''.jpg'' f [IMWRITE_JPEG_QUALITY, 70] = Inr (ok, p ! 1)) \<and>
   IMWRITE_JPEG_QUALITY = 1"
proof -
  let ?P = "\<lambda>t. (\<forall>c \<in> set (encode_calls t). c = (''.jpg'', [IMWRITE_JPEG_QUALITY, 70])) \<and>
     (\<forall>p \<in> set (sent_img t). \<exists>f ok. imencode env ''.jpg'' f [IMWRITE_JPEG_QUALITY, 70] = Inr (ok, p ! 1))"
  have "?P (trace (snd (loop env ws \<lparr>est = e0, trace = startup_events\<rparr>)))"
  proof (rule loop_invariant)
    show "?P (trace \<lparr>est = e0, trace = startup_events\<rparr>)"
      by (simp add: startup_events_def)
  next
    fix t w and s' :: "'a state"
    assume "?P t"
    then show "?P (t @ iter_events env w s')"
      using iter_encode_calls [of env w s'] iter_sent_img [of _ env w s']
      by (auto simp: encode_calls_append sent_img_append)
  next
    fix t m
    assume "?P t"
    then show "?P (t @ [Print m])"
      by (simp add: encode_calls_append sent_img_append)
  qed
  then show ?thesis
    by (simp add: main_trace encode_calls_append sent_img_append shutdown_events_def
        IMWRITE_JPEG_QUALITY_def)
qed

theorem jpeg_quality_70_witness:
  "encode_calls (trace (snd (main stub_env 0 [tick_pose, tick_nopose]))) =
     [(''.jpg'', [1, 70]), (''.jpg'', [1, 70])] \<and>
   map (\<lambda>p. p ! 1) (sent_img (trace (snd (main stub_env 0 [tick_pose, tick_nopose])))) =
     [[1, 255, 0], [2, 0, 0]] \<and>
   imencode stub_env ''.jpg'' \<lparr>shape0 = 1, shape1 = 1, pix = [(1, 255, 0)]\<rparr> [1, 70] = Inr (True, [1, 255, 0])"
  using jpeg_quality_70 [of stub_env 0 "[tick_pose, tick_nopose]"]
  by (simp add: main_def body_defs tick_defs stub_defs extract_keypoints_Nil startup_events_def
      img_message_def IMWRITE_JPEG_QUALITY_def)

end
